theory Spec2Isabelle
  imports Complex_Main
begin

section \<open>The MCP SSH executor (main.go)\<close>

text \<open>
  A shallow embedding of \<^verbatim>\<open>main.go\<close>: the session manager \<^verbatim>\<open>SSHExecutor\<close>
  (\<^verbatim>\<open>Connect\<close>, \<^verbatim>\<open>ExecuteCommand\<close>, \<^verbatim>\<open>Disconnect\<close>) and the read loop of
  \<^verbatim>\<open>main\<close>, which answers one JSON-RPC request per input line.

  What lies outside the program is explicit:
  \<^item> the process environment, the set of open SSH connections and a counter of the
    external calls made so far are the fields of a \<open>world\<close> that every operation
    takes and returns;
  \<^item> the library and the network (\<^verbatim>\<open>json.Unmarshal\<close>, \<^verbatim>\<open>strconv.Atoi\<close>,
    \<^verbatim>\<open>os.ReadFile\<close>, \<^verbatim>\<open>ssh.ParsePrivateKey\<close>, \<^verbatim>\<open>ssh.Dial\<close>,
    \<^verbatim>\<open>NewSession\<close>, \<^verbatim>\<open>session.Run\<close>) are the fields of a record
    \<open>externals\<close>. The calls whose answer may change from one call to the next take
    the counter, so that any behaviour of the outside is some value of the record;
  \<^item> the line scanner (\<^verbatim>\<open>bufio.Scanner\<close> with its default buffer) and the string
    encoding of \<^verbatim>\<open>json.Marshal\<close> are modelled as the library defines them.
\<close>

subsection \<open>JSON values\<close>

text \<open>
  A value of Go's \<^verbatim>\<open>interface{}\<close> as \<^verbatim>\<open>encoding/json\<close> decodes and encodes it:
  \<^verbatim>\<open>nil\<close>, \<^verbatim>\<open>bool\<close>, a number, \<^verbatim>\<open>string\<close>, \<^verbatim>\<open>[]interface{}\<close> and
  \<^verbatim>\<open>map[string]interface{}\<close>. A map is the list of its entries, read with
  \<open>map_of\<close>; the order of the members of an encoded object is not modelled.
  The same type is the tree of an encoded line: the text of a line (escapes, spacing)
  is not modelled.
\<close>

datatype json =
    JNull
  | JBool bool
  | JNumber real
  | JString string
  | JArray "json list"
  | JObject "(string \<times> json) list"

text \<open>The member \<open>k\<close> of an object; nothing for a value that is not an object.\<close>

definition member_of :: "json \<Rightarrow> string \<Rightarrow> json option" where
  "member_of j k = (case j of JObject kvs \<Rightarrow> map_of kvs k | _ \<Rightarrow> None)"

subsection \<open>The protocol types\<close>

text \<open>\<^verbatim>\<open>JSONRPCRequest\<close>: \<^verbatim>\<open>Id *int\<close> is \<open>None\<close> for \<^verbatim>\<open>nil\<close>; \<^verbatim>\<open>Params\<close>
  is \<open>JNull\<close> for the \<^verbatim>\<open>nil\<close> interface.\<close>

record JSONRPCRequest =
  req_Jsonrpc :: string
  req_Id :: "int option"
  req_Method :: string
  req_Params :: json

record JSONRPCError =
  Code :: int
  Message :: string

record Tool =
  Name :: string
  Description :: string
  InputSchema :: "(string \<times> json) list"

record ListToolsResult =
  Tools :: "Tool list"

record Content =
  Type :: string
  Text :: string

record CallToolResult =
  Content :: "Content list"
  IsError :: bool

text \<open>The dynamic types that \<^verbatim>\<open>main\<close> stores in \<^verbatim>\<open>var result interface{}\<close>.\<close>

datatype payload =
    MapResult "(string \<times> json) list"
  | ListTools ListToolsResult
  | CallTool CallToolResult

text \<open>\<^verbatim>\<open>JSONRPCResponse\<close>: \<open>None\<close> is the \<^verbatim>\<open>nil\<close> interface of \<^verbatim>\<open>Result\<close> and
  the \<^verbatim>\<open>nil\<close> pointer of \<^verbatim>\<open>Error\<close>.\<close>

record JSONRPCResponse =
  resp_Jsonrpc :: string
  resp_Id :: int
  resp_Result :: "payload option"
  resp_Error :: "JSONRPCError option"

subsection \<open>Encoding a response (\<^verbatim>\<open>json.Marshal\<close> on the struct tags)\<close>

text \<open>
  The encoder writes a Go string byte for byte where it is valid UTF-8 and writes
  the escape of U+FFFD for every byte that \<^verbatim>\<open>utf8.DecodeRuneInString\<close> rejects; its other
  escapes denote the characters they replace. \<open>rune_size\<close> is the number of bytes
  of the rune decoded at the head of a string, and \<open>0\<close> where the decoder answers
  \<^verbatim>\<open>(RuneError, 1)\<close>: a byte that cannot start a rune, a rune cut short by the end
  of the string, or a continuation byte outside the range its first byte accepts.
  \<open>coerce_utf8\<close> is the string that a reader of the encoded line gets back.
\<close>

definition in_range :: "nat \<Rightarrow> nat \<Rightarrow> char \<Rightarrow> bool" where
  "in_range lo hi c = (lo \<le> of_char c \<and> (of_char c :: nat) \<le> hi)"

fun rune_size :: "string \<Rightarrow> nat" where
  "rune_size [] = 0"
| "rune_size (c0 # cs) =
    (let b0 = (of_char c0 :: nat)
     in if b0 < 0x80 then 1
        else if b0 < 0xC2 \<or> 0xF4 < b0 then 0
        else
          let sz = (if b0 < 0xE0 then 2 else if b0 < 0xF0 then 3 else (4::nat));
              lo = (if b0 = 0xE0 then 0xA0 else if b0 = 0xF0 then 0x90 else 0x80);
              hi = (if b0 = 0xED then 0x9F else if b0 = 0xF4 then 0x8F else 0xBF)
          in if Suc (length cs) < sz then 0
             else if \<not> in_range lo hi (cs ! 0) then 0
             else if sz \<le> 2 then 2
             else if \<not> in_range 0x80 0xBF (cs ! 1) then 0
             else if sz \<le> 3 then 3
             else if \<not> in_range 0x80 0xBF (cs ! 2) then 0
             else 4)"

text \<open>The three bytes of U+FFFD.\<close>

definition RuneError :: string where
  "RuneError = [CHR 0xEF, CHR 0xBF, CHR 0xBD]"

function coerce_utf8 :: "string \<Rightarrow> string" where
  "coerce_utf8 [] = []"
| "coerce_utf8 (c # cs) =
    (case rune_size (c # cs) of
       0 \<Rightarrow> RuneError @ coerce_utf8 cs
     | Suc k \<Rightarrow> c # take k cs @ coerce_utf8 (drop k cs))"
  by pat_completeness auto
termination
  by (relation "measure length") auto

text \<open>A value held in an \<^verbatim>\<open>interface{}\<close>: every string and every key is coerced.\<close>

primrec marshal_interface :: "json \<Rightarrow> json" where
  "marshal_interface JNull = JNull"
| "marshal_interface (JBool b) = JBool b"
| "marshal_interface (JNumber r) = JNumber r"
| "marshal_interface (JString t) = JString (coerce_utf8 t)"
| "marshal_interface (JArray vs) = JArray (map marshal_interface vs)"
| "marshal_interface (JObject kvs) = JObject (map (map_prod coerce_utf8 marshal_interface) kvs)"

text \<open>A field tagged \<^verbatim>\<open>omitempty\<close> is left out when it is \<^verbatim>\<open>false\<close>, a \<^verbatim>\<open>nil\<close>
  pointer or a \<^verbatim>\<open>nil\<close> interface; the other fields are always written.
  \<^verbatim>\<open>main\<close> drops the error of \<^verbatim>\<open>json.Marshal\<close>; the values it encodes are
  strings, booleans, integers, slices, structs and maps of these, which always encode.\<close>

definition marshal_Content :: "Content \<Rightarrow> json" where
  "marshal_Content c =
     JObject [(''type'', JString (coerce_utf8 (Type c))),
              (''text'', JString (coerce_utf8 (Text c)))]"

definition marshal_CallToolResult :: "CallToolResult \<Rightarrow> json" where
  "marshal_CallToolResult r =
     JObject ((''content'', JArray (map marshal_Content (Content r)))
              # (if IsError r then [(''isError'', JBool True)] else []))"

definition marshal_Tool :: "Tool \<Rightarrow> json" where
  "marshal_Tool t =
     JObject [(''name'', JString (coerce_utf8 (Name t))),
              (''description'', JString (coerce_utf8 (Description t))),
              (''inputSchema'', marshal_interface (JObject (InputSchema t)))]"

definition marshal_ListToolsResult :: "ListToolsResult \<Rightarrow> json" where
  "marshal_ListToolsResult r = JObject [(''tools'', JArray (map marshal_Tool (Tools r)))]"

definition marshal_JSONRPCError :: "JSONRPCError \<Rightarrow> json" where
  "marshal_JSONRPCError e =
     JObject [(''code'', JNumber (of_int (Code e))),
              (''message'', JString (coerce_utf8 (Message e)))]"

fun marshal_payload :: "payload \<Rightarrow> json" where
  "marshal_payload (MapResult kvs) = marshal_interface (JObject kvs)"
| "marshal_payload (ListTools r) = marshal_ListToolsResult r"
| "marshal_payload (CallTool r) = marshal_CallToolResult r"

definition Marshal :: "JSONRPCResponse \<Rightarrow> json" where
  "Marshal resp =
     JObject ([(''jsonrpc'', JString (coerce_utf8 (resp_Jsonrpc resp))),
               (''id'', JNumber (of_int (resp_Id resp)))]
              @ (case resp_Result resp of
                   None \<Rightarrow> []
                 | Some p \<Rightarrow> [(''result'', marshal_payload p)])
              @ (case resp_Error resp of
                   None \<Rightarrow> []
                 | Some e \<Rightarrow> [(''error'', marshal_JSONRPCError e)]))"

subsection \<open>The outside world\<close>

text \<open>A Go \<^verbatim>\<open>error\<close>, by where it comes from. \<open>Error_text\<close> is what \<^verbatim>\<open>%v\<close> prints.\<close>

datatype error =
    ConfigRequired
  | NotConnected
  | External string

fun Error_text :: "error \<Rightarrow> string" where
  "Error_text ConfigRequired = ''SSH_HOST and SSH_USER required''"
| "Error_text NotConnected = ''not connected''"
| "Error_text (External m) = m"

text \<open>An \<^verbatim>\<open>*ssh.Client\<close> is the number of the connection it points to.\<close>

type_synonym ssh_Client = nat

datatype AuthMethod = Password string | PublicKeys string

record ClientConfig =
  User :: string
  Auth :: "AuthMethod list"

text \<open>
  \<open>environ\<close> is what \<^verbatim>\<open>os.Getenv\<close> reads (the empty string for an unset name);
  \<open>opened\<close> lists the connections that \<^verbatim>\<open>ssh.Dial\<close> has returned and nobody has
  closed; \<open>next_client\<close> is the number of the next connection; \<open>clock\<close> counts the
  calls of \<^verbatim>\<open>ReadFile\<close>, \<^verbatim>\<open>Dial\<close>, \<^verbatim>\<open>NewSession\<close> and \<^verbatim>\<open>CombinedOutput\<close>.
\<close>

record world =
  environ :: "string \<Rightarrow> string"
  clock :: nat
  opened :: "ssh_Client list"
  next_client :: ssh_Client

text \<open>The two output streams of a remote command.\<close>

datatype stream = Stdout | Stderr

text \<open>
  The library and the network. An error is the text of its message. \<^verbatim>\<open>Dial\<close> takes
  the host and the port that \<^verbatim>\<open>Connect\<close> formats into the address
  \<^verbatim>\<open>"%s:%d"\<close>; \<open>None\<close> is success for \<^verbatim>\<open>Dial\<close> and \<^verbatim>\<open>NewSession\<close>.
  \<^verbatim>\<open>Unmarshal\<close> gives \<open>None\<close> where \<^verbatim>\<open>json.Unmarshal\<close> returns an error.
  \<^verbatim>\<open>Run\<close> is \<^verbatim>\<open>session.Run\<close>: the pieces of output that the command wrote, each
  with the stream it was written to, in the order they arrived, and the error of the
  run (\<open>None\<close> for exit status 0).
\<close>

record externals =
  Unmarshal :: "string \<Rightarrow> JSONRPCRequest option"
  Atoi :: "string \<Rightarrow> int"
  ReadFile :: "nat \<Rightarrow> string \<Rightarrow> string + string"
  ParsePrivateKey :: "string \<Rightarrow> string + string"
  Dial :: "nat \<Rightarrow> string \<times> int \<Rightarrow> ClientConfig \<Rightarrow> string option"
  NewSession :: "nat \<Rightarrow> ssh_Client \<Rightarrow> string option"
  Run :: "nat \<Rightarrow> ssh_Client \<Rightarrow> string \<Rightarrow> (stream \<times> string) list \<times> string option"

definition tick :: "world \<Rightarrow> world" where
  "tick w = w\<lparr>clock := Suc (clock w)\<rparr>"

subsection \<open>The session manager\<close>

record SSHExecutor =
  client :: "ssh_Client option"

text \<open>
  \<^verbatim>\<open>Connect\<close>. The three early returns of the source are the \<open>Some\<close> results that
  leave \<open>s\<close> as it is; only the last line stores the new client.
\<close>

definition Connect :: "externals \<Rightarrow> SSHExecutor \<Rightarrow> world \<Rightarrow> error option \<times> SSHExecutor \<times> world" where
  "Connect x s w =
    (let host = environ w ''SSH_HOST'';
         user = environ w ''SSH_USER'';
         password = environ w ''SSH_PASSWORD'';
         keyPath = environ w ''SSH_PRIVATE_KEY_PATH'';
         portStr = environ w ''SSH_PORT'';
         portStr = (if portStr = [] then ''22'' else portStr);
         port = Atoi x portStr
     in if host = [] \<or> user = [] then (Some ConfigRequired, s, w)
        else
          let auth = (if password \<noteq> [] then [Password password] else []);
              keyed =
                (if keyPath \<noteq> [] then
                   (case ReadFile x (clock w) keyPath of
                      Inl m \<Rightarrow> Inl (External m)
                    | Inr key \<Rightarrow>
                        (case ParsePrivateKey x key of
                           Inl m \<Rightarrow> Inl (External m)
                         | Inr signer \<Rightarrow> Inr (auth @ [PublicKeys signer])))
                 else Inr auth);
              w1 = (if keyPath \<noteq> [] then tick w else w)
          in case keyed of
               Inl e \<Rightarrow> (Some e, s, w1)
             | Inr auth' \<Rightarrow>
                 (case Dial x (clock w1) (host, port) \<lparr>User = user, Auth = auth'\<rparr> of
                    Some m \<Rightarrow> (Some (External m), s, tick w1)
                  | None \<Rightarrow>
                      (let c = next_client w1
                       in (None, s\<lparr>client := Some c\<rparr>,
                           (tick w1)\<lparr>opened := opened w1 @ [c], next_client := Suc c\<rparr>))))"

text \<open>
  \<^verbatim>\<open>session.CombinedOutput\<close> of the ssh library sets one buffer as both
  \<^verbatim>\<open>Stdout\<close> and \<^verbatim>\<open>Stderr\<close> of the session, runs the command and returns the
  buffer: all the pieces in the order they arrived, whatever their stream.
\<close>

definition CombinedOutput ::
    "externals \<Rightarrow> nat \<Rightarrow> ssh_Client \<Rightarrow> string \<Rightarrow> string \<times> string option" where
  "CombinedOutput x t c cmd =
     (case Run x t c cmd of (writes, err) \<Rightarrow> (concat (map snd writes), err))"

text \<open>What a command wrote to one of its streams.\<close>

definition written :: "stream \<Rightarrow> (stream \<times> string) list \<Rightarrow> string" where
  "written st writes = concat (map snd (filter (\<lambda>p. fst p = st) writes))"

text \<open>
  \<^verbatim>\<open>ExecuteCommand\<close> returns \<^verbatim>\<open>(stdout, stderr, err)\<close>. The execution channel that
  \<^verbatim>\<open>NewSession\<close> opens is closed on return and is not tracked.
\<close>

definition ExecuteCommand ::
    "externals \<Rightarrow> SSHExecutor \<Rightarrow> string \<Rightarrow> world \<Rightarrow> (string \<times> string \<times> error option) \<times> world" where
  "ExecuteCommand x s cmd w =
    (case client s of
       None \<Rightarrow> (([], [], Some NotConnected), w)
     | Some c \<Rightarrow>
         (case NewSession x (clock w) c of
            Some m \<Rightarrow> (([], [], Some (External m)), tick w)
          | None \<Rightarrow>
              (let w1 = tick w;
                   (output, err) = CombinedOutput x (clock w1) c cmd
               in case err of
                    Some m \<Rightarrow> (([], output, Some (External m)), tick w1)
                  | None \<Rightarrow> ((output, [], None), tick w1))))"

definition Disconnect :: "SSHExecutor \<Rightarrow> world \<Rightarrow> SSHExecutor \<times> world" where
  "Disconnect s w =
    (case client s of
       Some c \<Rightarrow> (s\<lparr>client := None\<rparr>, w\<lparr>opened := removeAll c (opened w)\<rparr>)
     | None \<Rightarrow> (s, w))"

subsection \<open>The dispatcher (\<^verbatim>\<open>main\<close>)\<close>

definition text_result :: "string \<Rightarrow> bool \<Rightarrow> payload" where
  "text_result t e = CallTool \<lparr>Content = [\<lparr>Type = ''text'', Text = t\<rparr>], IsError = e\<rparr>"

definition method_not_found :: JSONRPCError where
  "method_not_found = \<lparr>Code = - 32601, Message = ''Method not found''\<rparr>"

definition invalid_params :: JSONRPCError where
  "invalid_params = \<lparr>Code = - 32602, Message = ''Invalid params''\<rparr>"

definition initialize_result :: "(string \<times> json) list" where
  "initialize_result =
     [(''protocolVersion'', JString ''2024-11-05''),
      (''capabilities'', JObject [(''tools'', JObject [])]),
      (''serverInfo'', JObject [(''name'', JString ''ssh-executor''),
                                (''version'', JString ''1.0.0'')])]"

definition tools_list_result :: ListToolsResult where
  "tools_list_result =
     \<lparr>Tools =
        [\<lparr>Name = ''connect_ssh'',
          Description = ''Connect to SSH server'',
          InputSchema = [(''type'', JString ''object''), (''properties'', JObject [])]\<rparr>,
         \<lparr>Name = ''execute_command'',
          Description = ''Execute command on remote server'',
          InputSchema =
            [(''type'', JString ''object''),
             (''properties'', JObject [(''command'', JObject [(''type'', JString ''string'')])]),
             (''required'', JArray [JString ''command''])]\<rparr>,
         \<lparr>Name = ''disconnect_ssh'',
          Description = ''Disconnect from SSH server'',
          InputSchema = [(''type'', JString ''object''), (''properties'', JObject [])]\<rparr>]\<rparr>"

text \<open>
  The inner \<^verbatim>\<open>switch name\<close> of the \<^verbatim>\<open>tools/call\<close> case. \<open>args\<close> is the map
  \<^verbatim>\<open>params["arguments"]\<close>, empty when that is not a map. The result is
  \<^verbatim>\<open>(result, rpcErr)\<close> and the state after the call.
\<close>

definition call_tool ::
    "externals \<Rightarrow> string \<Rightarrow> (string \<times> json) list \<Rightarrow> SSHExecutor \<Rightarrow> world
       \<Rightarrow> payload option \<times> JSONRPCError option \<times> SSHExecutor \<times> world" where
  "call_tool x name args s w =
    (if name = ''connect_ssh'' then
       (case Connect x s w of
          (Some err, s', w') \<Rightarrow>
            (Some (text_result (''Connection failed: '' @ Error_text err) True), None, s', w')
        | (None, s', w') \<Rightarrow>
            (Some (text_result ''Connected to SSH server'' False), None, s', w'))
     else if name = ''execute_command'' then
       (case map_of args ''command'' of
          Some (JString cmd) \<Rightarrow>
            (case ExecuteCommand x s cmd w of
               ((output, stderr, Some err), w') \<Rightarrow>
                 (Some (text_result
                          (''Command failed: '' @ Error_text err @ [CHR 10] @ ''Output: '' @ output
                             @ [CHR 10] @ ''Error: '' @ stderr) True),
                  None, s, w')
             | ((output, stderr, None), w') \<Rightarrow>
                 (Some (text_result (''Output:'' @ [CHR 10] @ output) False), None, s, w'))
        | _ \<Rightarrow> (Some (text_result ''command parameter required'' True), None, s, w))
     else if name = ''disconnect_ssh'' then
       (case Disconnect s w of
          (s', w') \<Rightarrow> (Some (text_result ''Disconnected from SSH server'' False), None, s', w'))
     else (None, Some method_not_found, s, w))"

text \<open>The \<^verbatim>\<open>switch req.Method\<close>.\<close>

definition dispatch ::
    "externals \<Rightarrow> JSONRPCRequest \<Rightarrow> SSHExecutor \<Rightarrow> world
       \<Rightarrow> payload option \<times> JSONRPCError option \<times> SSHExecutor \<times> world" where
  "dispatch x req s w =
    (if req_Method req = ''initialize'' then (Some (MapResult initialize_result), None, s, w)
     else if req_Method req = ''tools/list'' then (Some (ListTools tools_list_result), None, s, w)
     else if req_Method req = ''tools/call'' then
       (case req_Params req of
          JObject params \<Rightarrow>
            (case map_of params ''name'' of
               Some (JString name) \<Rightarrow>
                 call_tool x name
                   (case map_of params ''arguments'' of Some (JObject a) \<Rightarrow> a | _ \<Rightarrow> []) s w
             | _ \<Rightarrow> (None, Some invalid_params, s, w))
        | _ \<Rightarrow> (None, Some invalid_params, s, w))
     else (None, Some method_not_found, s, w))"

text \<open>
  The body of the loop \<^verbatim>\<open>for scanner.Scan()\<close>, run on the tokens that the scanner
  delivers (\<^verbatim>\<open>scanner.Text()\<close>), in order. The result is the list of the lines
  printed, each as the tree of its JSON text, and the final state.
\<close>

fun main_loop ::
    "externals \<Rightarrow> string list \<Rightarrow> SSHExecutor \<Rightarrow> world \<Rightarrow> json list \<times> SSHExecutor \<times> world" where
  "main_loop x [] s w = ([], s, w)"
| "main_loop x (line # rest) s w =
    (case Unmarshal x line of
       None \<Rightarrow> main_loop x rest s w
     | Some req \<Rightarrow>
         (case req_Id req of
            None \<Rightarrow> main_loop x rest s w
          | Some i \<Rightarrow>
              (case dispatch x req s w of
                 (result, rpcErr, s', w') \<Rightarrow>
                   (case main_loop x rest s' w' of
                      (out, s'', w'') \<Rightarrow>
                        (Marshal \<lparr>resp_Jsonrpc = ''2.0'', resp_Id = i,
                                  resp_Result = result, resp_Error = rpcErr\<rparr> # out,
                         s'', w'')))))"

text \<open>
  \<^verbatim>\<open>bufio.NewScanner(os.Stdin)\<close> splits the input at newlines. The input is the list
  of its lines, each the bytes before a newline (or before the end of the input).
  The scanner's buffer grows to \<^verbatim>\<open>MaxScanTokenSize\<close> bytes and has to hold a line
  up to its newline: at the first line of that many bytes or more
  \<^verbatim>\<open>Scan\<close> returns \<^verbatim>\<open>false\<close> (\<^verbatim>\<open>ErrTooLong\<close>, which \<^verbatim>\<open>main\<close> never reads), so
  that line and all after it are never delivered. The token of a shorter line is the
  line without one trailing carriage return.
\<close>

definition MaxScanTokenSize :: nat where
  "MaxScanTokenSize = 64 * 1024"

definition dropCR :: "string \<Rightarrow> string" where
  "dropCR data = (if data \<noteq> [] \<and> last data = CHR 0x0D then butlast data else data)"

fun scanned :: "string list \<Rightarrow> string list" where
  "scanned [] = []"
| "scanned (l # ls) = (if MaxScanTokenSize \<le> length l then [] else dropCR l # scanned ls)"

text \<open>\<^verbatim>\<open>main\<close> on the lines of the standard input, from a fresh executor.\<close>

definition main :: "externals \<Rightarrow> world \<Rightarrow> string list \<Rightarrow> json list \<times> SSHExecutor \<times> world" where
  "main x w lines = main_loop x (scanned lines) \<lparr>client = None\<rparr> w"

subsection \<open>A concrete outside world\<close>

text \<open>
  Input lines with the requests that \<^verbatim>\<open>json.Unmarshal\<close> decodes them to, a server
  that accepts every connection and runs every command but \<^verbatim>\<open>false\<close>, and an
  environment that names a host, a user and a password. The theorems below are
  instantiated on them.
\<close>

definition line_initialize :: string where
  "line_initialize = ''{\"jsonrpc\": \"2.0\", \"id\": 1, \"method\": \"initialize\"}''"

definition line_tools_list :: string where
  "line_tools_list = ''{\"jsonrpc\":\"2.0\",\"id\":1,\"method\":\"tools/list\"}''"

definition line_execute_no_args :: string where
  "line_execute_no_args =
     ''{\"jsonrpc\":\"2.0\",\"id\":2,\"method\":\"tools/call\",\"params\":{\"name\":\"execute_command\",\"arguments\":{}}}''"

definition line_connect :: string where
  "line_connect =
     ''{\"jsonrpc\":\"2.0\",\"id\":3,\"method\":\"tools/call\",\"params\":{\"name\":\"connect_ssh\"}}''"

definition line_execute_false :: string where
  "line_execute_false =
     ''{\"jsonrpc\":\"2.0\",\"id\":4,\"method\":\"tools/call\",\"params\":{\"name\":\"execute_command\",\"arguments\":{\"command\":\"false\"}}}''"

definition line_disconnect :: string where
  "line_disconnect =
     ''{\"jsonrpc\":\"2.0\",\"id\":5,\"method\":\"tools/call\",\"params\":{\"name\":\"disconnect_ssh\"}}''"

definition line_unknown_tool :: string where
  "line_unknown_tool =
     ''{\"jsonrpc\":\"2.0\",\"id\":6,\"method\":\"tools/call\",\"params\":{\"name\":\"unknown_tool\"}}''"

definition line_params_array :: string where
  "line_params_array = ''{\"jsonrpc\":\"2.0\",\"id\":7,\"method\":\"tools/call\",\"params\":[true]}''"

definition line_ping :: string where
  "line_ping = ''{\"jsonrpc\":\"2.0\",\"id\":8,\"method\":\"ping\"}''"

definition line_notification :: string where
  "line_notification = ''{\"jsonrpc\":\"2.0\",\"method\":\"notifications/initialized\"}''"

definition line_garbage :: string where
  "line_garbage = ''not json''"

definition tools_call_request :: "int \<Rightarrow> (string \<times> json) list \<Rightarrow> JSONRPCRequest" where
  "tools_call_request i params =
     \<lparr>req_Jsonrpc = ''2.0'', req_Id = Some i, req_Method = ''tools/call'',
      req_Params = JObject params\<rparr>"

definition demo_Unmarshal :: "string \<Rightarrow> JSONRPCRequest option" where
  "demo_Unmarshal =
     map_of
       [(line_initialize,
         \<lparr>req_Jsonrpc = ''2.0'', req_Id = Some 1, req_Method = ''initialize'', req_Params = JNull\<rparr>),
        (line_tools_list,
         \<lparr>req_Jsonrpc = ''2.0'', req_Id = Some 1, req_Method = ''tools/list'', req_Params = JNull\<rparr>),
        (line_execute_no_args,
         tools_call_request 2 [(''name'', JString ''execute_command''), (''arguments'', JObject [])]),
        (line_connect, tools_call_request 3 [(''name'', JString ''connect_ssh'')]),
        (line_execute_false,
         tools_call_request 4
           [(''name'', JString ''execute_command''),
            (''arguments'', JObject [(''command'', JString ''false'')])]),
        (line_disconnect, tools_call_request 5 [(''name'', JString ''disconnect_ssh'')]),
        (line_unknown_tool, tools_call_request 6 [(''name'', JString ''unknown_tool'')]),
        (line_params_array,
         \<lparr>req_Jsonrpc = ''2.0'', req_Id = Some 7, req_Method = ''tools/call'',
          req_Params = JArray [JBool True]\<rparr>),
        (line_ping,
         \<lparr>req_Jsonrpc = ''2.0'', req_Id = Some 8, req_Method = ''ping'', req_Params = JNull\<rparr>),
        (line_notification,
         \<lparr>req_Jsonrpc = ''2.0'', req_Id = None, req_Method = ''notifications/initialized'',
          req_Params = JNull\<rparr>)]"

definition demo_externals :: externals where
  "demo_externals =
     \<lparr>Unmarshal = demo_Unmarshal,
      Atoi = (\<lambda>s. if s = ''22'' then 22 else 0),
      ReadFile = (\<lambda>t path. Inl ''open: no such file or directory''),
      ParsePrivateKey = (\<lambda>key. Inl ''ssh: no key found''),
      Dial = (\<lambda>t addr config. None),
      NewSession = (\<lambda>t c. None),
      Run =
        (\<lambda>t c cmd.
           if cmd = ''false'' then ([], Some ''Process exited with status 1'')
           else if cmd = ''ls src missing'' then
             ([(Stdout, ''src: main.go''), (Stderr, ''ls: missing: No such file or directory'')],
              Some ''Process exited with status 2'')
           else ([(Stdout, ''hi'')], None))\<rparr>"

definition demo_world :: world where
  "demo_world =
     \<lparr>environ =
        (\<lambda>n. if n = ''SSH_HOST'' then ''example.org''
             else if n = ''SSH_USER'' then ''alice''
             else if n = ''SSH_PASSWORD'' then ''secret''
             else []),
      clock = 0, opened = [], next_client = 0\<rparr>"

text \<open>
  A request of 46 bytes followed by 65536 spaces, which \<^verbatim>\<open>json.Unmarshal\<close> accepts as
  it accepts the request alone, and a line of 65536 bytes that is not JSON.
\<close>

definition oversized_request :: string where
  "oversized_request = line_tools_list @ replicate 65536 (CHR '' '')"

definition oversized_garbage :: string where
  "oversized_garbage = replicate 65536 (CHR ''x'')"

definition padded_externals :: externals where
  "padded_externals =
     demo_externals\<lparr>Unmarshal :=
       (\<lambda>l. if l = oversized_request
            then Some \<lparr>req_Jsonrpc = ''2.0'', req_Id = Some 1, req_Method = ''tools/list'',
                       req_Params = JNull\<rparr>
            else demo_Unmarshal l)\<rparr>"


text \<open>The same outside world, with a server that refuses every connection.\<close>

definition refusing_externals :: externals where
  "refusing_externals =
     demo_externals\<lparr>Dial := (\<lambda>t addr config. Some ''dial tcp: connection refused'')\<rparr>"

section \<open>Properties\<close>

subsection \<open>Auxiliary facts\<close>

lemmas demo_lines =
  line_initialize_def line_tools_list_def line_execute_no_args_def line_connect_def
  line_execute_false_def line_disconnect_def line_unknown_tool_def line_params_array_def
  line_ping_def line_notification_def line_garbage_def

lemmas demo_defs = demo_externals_def demo_Unmarshal_def demo_world_def tools_call_request_def

lemma coerce_utf8_ascii: "\<forall>c\<in>set t. (of_char c :: nat) < 128 \<Longrightarrow> coerce_utf8 t = t"
  by (induction t) simp_all

lemma coerce_utf8_invalid_byte: "coerce_utf8 [CHR ''a'', CHR 0xFF, CHR ''b''] = CHR ''a'' # RuneError @ [CHR ''b'']"
  by simp

lemma scanned_short:
  "length l < MaxScanTokenSize \<Longrightarrow> scanned (l # ls) = dropCR l # scanned ls"
  by simp

lemma scanned_long: "MaxScanTokenSize \<le> length l \<Longrightarrow> scanned (l # ls) = []"
  by simp

lemma length_oversized:
  "MaxScanTokenSize \<le> length oversized_request" "MaxScanTokenSize \<le> length oversized_garbage"
  by (simp_all only: oversized_request_def oversized_garbage_def MaxScanTokenSize_def
      length_append length_replicate)

lemma demo_Unmarshal_oversized: "demo_Unmarshal oversized_garbage = None"
proof -
  have ne: "oversized_garbage \<noteq> l" if "length l < 65536" for l
    using that length_oversized(2) by (auto simp: MaxScanTokenSize_def)
  show ?thesis
    by (simp add: demo_Unmarshal_def ne demo_lines)
qed

lemma member_Marshal_id: "member_of (Marshal r) ''id'' = Some (JNumber (of_int (resp_Id r)))"
  by (simp add: Marshal_def member_of_def)

lemma member_Marshal_result:
  "member_of (Marshal r) ''result'' = map_option marshal_payload (resp_Result r)"
  by (simp add: Marshal_def member_of_def split: option.splits)

lemma member_Marshal_error:
  "member_of (Marshal r) ''error'' = map_option marshal_JSONRPCError (resp_Error r)"
  by (simp add: Marshal_def member_of_def split: option.splits)

lemma member_error_object:
  "member_of (marshal_JSONRPCError e) ''code'' = Some (JNumber (of_int (Code e)))"
  "member_of (marshal_JSONRPCError e) ''message'' = Some (JString (coerce_utf8 (Message e)))"
  by (simp_all add: marshal_JSONRPCError_def member_of_def)

lemma member_text_result:
  "member_of (marshal_payload (text_result t e)) ''content''
     = Some (JArray [JObject [(''type'', JString ''text''), (''text'', JString (coerce_utf8 t))]])"
  "member_of (marshal_payload (text_result t e)) ''isError''
     = (if e then Some (JBool True) else None)"
  by (simp_all add: text_result_def marshal_CallToolResult_def marshal_Content_def member_of_def
      coerce_utf8_ascii)

lemma call_tool_one_of:
  "call_tool x name args s w = (r, e, s', w') \<Longrightarrow> (r = None) \<noteq> (e = None)"
  by (auto simp: call_tool_def split: if_splits option.splits json.splits prod.splits)

lemma dispatch_one_of:
  "dispatch x req s w = (r, e, s', w') \<Longrightarrow> (r = None) \<noteq> (e = None)"
  by (auto simp: dispatch_def dest: call_tool_one_of split: if_splits option.splits json.splits)

lemma main_loop_answer:
  assumes "Unmarshal x line = Some req" and "req_Id req = Some i"
    and "dispatch x req s w = (r, e, s', w')"
  shows "main_loop x (line # rest) s w =
           (Marshal \<lparr>resp_Jsonrpc = ''2.0'', resp_Id = i, resp_Result = r, resp_Error = e\<rparr>
              # fst (main_loop x rest s' w'),
            snd (main_loop x rest s' w'))"
  using assms by (simp split: prod.splits)


lemma main_loop_one_response:
  assumes "Unmarshal x line = Some req" and "req_Id req = Some i"
  shows "\<exists>resp s' w'.
           main_loop x (line # rest) s w =
             (resp # fst (main_loop x rest s' w'), snd (main_loop x rest s' w'))
           \<and> member_of resp ''id'' = Some (JNumber (of_int i))
           \<and> (member_of resp ''result'' = None) \<noteq> (member_of resp ''error'' = None)"
proof -
  obtain r e s' w' where d: "dispatch x req s w = (r, e, s', w')"
    by (cases "dispatch x req s w") auto
  let ?resp = "Marshal \<lparr>resp_Jsonrpc = ''2.0'', resp_Id = i, resp_Result = r, resp_Error = e\<rparr>"
  have "main_loop x (line # rest) s w =
          (?resp # fst (main_loop x rest s' w'), snd (main_loop x rest s' w'))"
    by (rule main_loop_answer [OF assms d])
  moreover have "member_of ?resp ''id'' = Some (JNumber (of_int i))"
    by (simp add: member_Marshal_id)
  moreover have "(member_of ?resp ''result'' = None) \<noteq> (member_of ?resp ''error'' = None)"
    using dispatch_one_of [OF d] by (simp add: member_Marshal_result member_Marshal_error)
  ultimately show ?thesis by blast
qed

lemma main_loop_skip:
  assumes "Unmarshal x line = None \<or> (\<exists>req. Unmarshal x line = Some req \<and> req_Id req = None)"
  shows "main_loop x (line # rest) s w = main_loop x rest s w"
  using assms by auto

lemma dispatch_invalid_params:
  assumes "req_Method req = ''tools/call''"
    and "(\<forall>params. req_Params req \<noteq> JObject params)
         \<or> (\<exists>params. req_Params req = JObject params
               \<and> (\<forall>name. map_of params ''name'' \<noteq> Some (JString name)))"
  shows "dispatch x req s w = (None, Some invalid_params, s, w)"
  using assms by (auto simp: dispatch_def split: json.splits option.splits)

lemma dispatch_not_found:
  assumes "req_Method req \<notin> {''initialize'', ''tools/list'', ''tools/call''}
           \<or> (req_Method req = ''tools/call''
               \<and> (\<exists>params name. req_Params req = JObject params
                     \<and> map_of params ''name'' = Some (JString name)
                     \<and> name \<notin> {''connect_ssh'', ''execute_command'', ''disconnect_ssh''}))"
  shows "dispatch x req s w = (None, Some method_not_found, s, w)"
  using assms by (auto simp: dispatch_def call_tool_def)


lemma tools_list_names:
  "member_of (marshal_payload (ListTools tools_list_result)) ''tools''
     = Some (JArray (map marshal_Tool (Tools tools_list_result)))"
  "map (\<lambda>t. member_of t ''name'') (map marshal_Tool (Tools tools_list_result))
     = [Some (JString ''connect_ssh''), Some (JString ''execute_command''),
        Some (JString ''disconnect_ssh'')]"
  by (simp_all add: marshal_ListToolsResult_def marshal_Tool_def member_of_def
      tools_list_result_def coerce_utf8_ascii)

lemma ExecuteCommand_not_connected:
  "client s = None \<Longrightarrow> ExecuteCommand x s cmd w = (([], [], Some NotConnected), w)"
  by (simp add: ExecuteCommand_def)

lemma ExecuteCommand_connected:
  "client s = Some c \<Longrightarrow> snd (snd (fst (ExecuteCommand x s cmd w))) \<noteq> Some NotConnected"
  by (simp add: ExecuteCommand_def CombinedOutput_def Let_def split: option.splits prod.splits)

lemma Connect_failure_frame:
  assumes "Connect x s w = (Some e, s', w')"
  shows "s' = s" and "opened w' = opened w" and "next_client w' = next_client w"
    and "environ w' = environ w"
  using assms
  by (auto simp: Connect_def Let_def tick_def split: if_splits sum.splits option.splits)








subsection \<open>The dispatcher\<close>

text \<open>
  C1: as stated the claim fails. A request with an id on a line of 65536 bytes or more
  is never delivered by the scanner: nothing is printed for it, nor for a request on a
  later line.
\<close>

theorem oversized_request_gets_no_response_counterexample:
  "Unmarshal padded_externals oversized_request
     = Some \<lparr>req_Jsonrpc = ''2.0'', req_Id = Some 1, req_Method = ''tools/list'',
             req_Params = JNull\<rparr>
   \<and> fst (main padded_externals demo_world [oversized_request]) = []
   \<and> fst (main padded_externals demo_world [oversized_request, line_tools_list]) = []"
  by (simp add: padded_externals_def demo_externals_def main_def scanned_long length_oversized)

text \<open>
  C1: amended. A line shorter than 65536 bytes that the loop reaches, and whose token
  \<^verbatim>\<open>Unmarshal\<close> decodes to a request with an id, is answered by exactly one line,
  printed before the rest of the input is processed. The id of that line is the id of
  the request, and exactly one of its members \<open>result\<close> and \<open>error\<close> is present.
\<close>

theorem one_response_per_scanned_request:
  assumes "length line < MaxScanTokenSize"
    and "Unmarshal x (dropCR line) = Some req" and "req_Id req = Some i"
  shows "\<exists>resp s' w'.
           main_loop x (scanned (line # rest)) s w =
             (resp # fst (main_loop x (scanned rest) s' w'),
              snd (main_loop x (scanned rest) s' w'))
           \<and> member_of resp ''id'' = Some (JNumber (of_int i))
           \<and> (member_of resp ''result'' = None) \<noteq> (member_of resp ''error'' = None)"
  unfolding scanned_short [OF assms(1)]
  by (rule main_loop_one_response [OF assms(2,3)])

text \<open>The theorem at a concrete input.\<close>

theorem one_response_per_scanned_request_witness:
  "length line_connect < MaxScanTokenSize
   \<and> Unmarshal demo_externals (dropCR line_connect)
       = Some (tools_call_request 3 [(''name'', JString ''connect_ssh'')])
   \<and> (\<exists>resp s' w'.
         main_loop demo_externals (scanned [line_connect, oversized_garbage])
             \<lparr>client = None\<rparr> demo_world
           = ([resp], s', w')
         \<and> member_of resp ''id'' = Some (JNumber 3)
         \<and> (member_of resp ''result'' = None) \<noteq> (member_of resp ''error'' = None))"
proof -
  let ?req = "tools_call_request 3 [(''name'', JString ''connect_ssh'')]"
  have l: "length line_connect < MaxScanTokenSize"
    by (simp add: line_connect_def MaxScanTokenSize_def)
  have u: "Unmarshal demo_externals (dropCR line_connect) = Some ?req"
    by (simp add: demo_defs demo_lines dropCR_def)
  have i: "req_Id ?req = Some 3"
    by (simp add: tools_call_request_def)
  have r: "scanned [oversized_garbage] = []"
    by (rule scanned_long) (rule length_oversized)
  from one_response_per_scanned_request
         [OF l u i, of "[oversized_garbage]" "\<lparr>client = None\<rparr>" demo_world]
  show ?thesis
    unfolding r using l u by auto
qed

text \<open>
  C5: as stated the claim fails. After a line of 65536 bytes that is not JSON the loop
  ends: the request on the next line, which alone is answered, gets no answer.
\<close>

theorem oversized_line_ends_the_loop_counterexample:
  "Unmarshal demo_externals oversized_garbage = None
   \<and> main demo_externals demo_world [oversized_garbage, line_tools_list]
       = ([], \<lparr>client = None\<rparr>, demo_world)
   \<and> length (fst (main demo_externals demo_world [line_tools_list])) = 1"
  by (simp add: demo_externals_def demo_Unmarshal_oversized main_def scanned_long
      length_oversized)
    (simp add: demo_Unmarshal_def demo_lines MaxScanTokenSize_def dropCR_def
      split: prod.splits)

text \<open>
  C5: amended. For a line whose token \<^verbatim>\<open>Unmarshal\<close> rejects or decodes to a
  request without an id, nothing is printed and no operation of the session manager is
  called. When the line is shorter than 65536 bytes the run is the run on the rest of
  the input from the same executor and the same world, so the loop goes on with the next
  line; at a line of 65536 bytes or more the loop ends.
\<close>

theorem skipped_line_is_silent:
  assumes "Unmarshal x (dropCR line) = None
           \<or> (\<exists>req. Unmarshal x (dropCR line) = Some req \<and> req_Id req = None)"
  shows "(length line < MaxScanTokenSize \<longrightarrow>
            main_loop x (scanned (line # rest)) s w = main_loop x (scanned rest) s w)
         \<and> (MaxScanTokenSize \<le> length line \<longrightarrow>
              main_loop x (scanned (line # rest)) s w = ([], s, w))"
  using main_loop_skip [OF assms] by simp

text \<open>The theorem at a concrete input.\<close>

theorem skipped_line_is_silent_witness:
  "Unmarshal demo_externals (dropCR line_garbage) = None
   \<and> length line_garbage < MaxScanTokenSize
   \<and> main_loop demo_externals (scanned [line_garbage, line_notification])
         \<lparr>client = Some 0\<rparr> demo_world
       = main_loop demo_externals (scanned [line_notification]) \<lparr>client = Some 0\<rparr> demo_world
   \<and> Unmarshal demo_externals (dropCR oversized_garbage) = None
   \<and> MaxScanTokenSize \<le> length oversized_garbage
   \<and> main_loop demo_externals (scanned [oversized_garbage, line_tools_list])
         \<lparr>client = Some 0\<rparr> demo_world
       = ([], \<lparr>client = Some 0\<rparr>, demo_world)"
proof -
  have g: "Unmarshal demo_externals (dropCR line_garbage) = None"
    by (simp add: demo_defs demo_lines dropCR_def)
  have l: "length line_garbage < MaxScanTokenSize"
    by (simp add: line_garbage_def MaxScanTokenSize_def)
  have d: "dropCR oversized_garbage = oversized_garbage"
    by (simp add: dropCR_def oversized_garbage_def)
  have o: "Unmarshal demo_externals (dropCR oversized_garbage) = None"
    by (simp add: d demo_externals_def demo_Unmarshal_oversized)
  from skipped_line_is_silent
         [of demo_externals line_garbage "[line_notification]" "\<lparr>client = Some 0\<rparr>" demo_world]
       skipped_line_is_silent
         [of demo_externals oversized_garbage "[line_tools_list]" "\<lparr>client = Some 0\<rparr>"
             demo_world]
       g l o length_oversized(2)
  show ?thesis by blast
qed

text \<open>
  C6: a \<^verbatim>\<open>tools/call\<close> request whose \<^verbatim>\<open>params\<close> is not a map, or is a map
  without a string \<open>name\<close>, is answered by the error object with code \<open>-32602\<close> and
  message \<^verbatim>\<open>Invalid params\<close>, and no result; the executor and the world are as they
  were, so no tool has run.
\<close>

theorem malformed_tools_call_is_invalid_params:
  assumes "Unmarshal x line = Some req" and "req_Id req = Some i"
    and "req_Method req = ''tools/call''"
    and "(\<forall>params. req_Params req \<noteq> JObject params)
         \<or> (\<exists>params. req_Params req = JObject params
               \<and> (\<forall>name. map_of params ''name'' \<noteq> Some (JString name)))"
  shows "\<exists>resp err.
           main_loop x (line # rest) s w =
             (resp # fst (main_loop x rest s w), snd (main_loop x rest s w))
           \<and> member_of resp ''id'' = Some (JNumber (of_int i))
           \<and> member_of resp ''result'' = None
           \<and> member_of resp ''error'' = Some err
           \<and> member_of err ''code'' = Some (JNumber (- 32602))
           \<and> member_of err ''message'' = Some (JString ''Invalid params'')"
proof -
  have d: "dispatch x req s w = (None, Some invalid_params, s, w)"
    by (rule dispatch_invalid_params [OF assms(3,4)])
  show ?thesis
    unfolding main_loop_answer [OF assms(1,2) d]
    by (simp add: member_Marshal_id member_Marshal_result member_Marshal_error
        member_error_object invalid_params_def coerce_utf8_ascii)
qed

text \<open>The theorem at a concrete input.\<close>

theorem malformed_tools_call_is_invalid_params_witness:
  "Unmarshal demo_externals line_params_array
     = Some \<lparr>req_Jsonrpc = ''2.0'', req_Id = Some 7, req_Method = ''tools/call'',
             req_Params = JArray [JBool True]\<rparr>
   \<and> (\<exists>resp err.
         main_loop demo_externals [line_params_array, line_tools_list] \<lparr>client = None\<rparr> demo_world =
           (resp # fst (main_loop demo_externals [line_tools_list] \<lparr>client = None\<rparr> demo_world),
            snd (main_loop demo_externals [line_tools_list] \<lparr>client = None\<rparr> demo_world))
         \<and> member_of resp ''id'' = Some (JNumber 7)
         \<and> member_of resp ''result'' = None
         \<and> member_of resp ''error'' = Some err
         \<and> member_of err ''code'' = Some (JNumber (- 32602))
         \<and> member_of err ''message'' = Some (JString ''Invalid params''))"
proof -
  let ?req = "\<lparr>req_Jsonrpc = ''2.0'', req_Id = Some 7, req_Method = ''tools/call'',
               req_Params = JArray [JBool True]\<rparr>"
  have u: "Unmarshal demo_externals line_params_array = Some ?req"
    by (simp add: demo_defs demo_lines)
  have p: "(\<forall>params. req_Params ?req \<noteq> JObject params)
         \<or> (\<exists>params. req_Params ?req = JObject params
               \<and> (\<forall>name. map_of params ''name'' \<noteq> Some (JString name)))"
    by simp
  from malformed_tools_call_is_invalid_params
         [OF u _ _ p, of 7 "[line_tools_list]" "\<lparr>client = None\<rparr>" demo_world] u
  show ?thesis by simp
qed

text \<open>
  C7: a request with an id whose method is none of \<^verbatim>\<open>initialize\<close>,
  \<^verbatim>\<open>tools/list\<close>, \<^verbatim>\<open>tools/call\<close>, and a well-formed \<^verbatim>\<open>tools/call\<close> whose tool
  is none of \<^verbatim>\<open>connect_ssh\<close>, \<^verbatim>\<open>execute_command\<close>, \<^verbatim>\<open>disconnect_ssh\<close>, is
  answered by the error object with code \<open>-32601\<close> and message
  \<^verbatim>\<open>Method not found\<close>.
\<close>

theorem unknown_method_or_tool_is_not_found:
  assumes "Unmarshal x line = Some req" and "req_Id req = Some i"
    and "req_Method req \<notin> {''initialize'', ''tools/list'', ''tools/call''}
           \<or> (req_Method req = ''tools/call''
               \<and> (\<exists>params name. req_Params req = JObject params
                     \<and> map_of params ''name'' = Some (JString name)
                     \<and> name \<notin> {''connect_ssh'', ''execute_command'', ''disconnect_ssh''}))"
  shows "\<exists>resp err.
           main_loop x (line # rest) s w =
             (resp # fst (main_loop x rest s w), snd (main_loop x rest s w))
           \<and> member_of resp ''id'' = Some (JNumber (of_int i))
           \<and> member_of resp ''result'' = None
           \<and> member_of resp ''error'' = Some err
           \<and> member_of err ''code'' = Some (JNumber (- 32601))
           \<and> member_of err ''message'' = Some (JString ''Method not found'')"
proof -
  have d: "dispatch x req s w = (None, Some method_not_found, s, w)"
    by (rule dispatch_not_found [OF assms(3)])
  show ?thesis
    unfolding main_loop_answer [OF assms(1,2) d]
    by (simp add: member_Marshal_id member_Marshal_result member_Marshal_error
        member_error_object method_not_found_def coerce_utf8_ascii)
qed

text \<open>The theorem at a concrete input.\<close>

theorem unknown_method_or_tool_is_not_found_witness:
  "Unmarshal demo_externals line_unknown_tool
     = Some (tools_call_request 6 [(''name'', JString ''unknown_tool'')])
   \<and> (\<exists>resp err.
         main_loop demo_externals [line_unknown_tool] \<lparr>client = Some 0\<rparr> demo_world =
           (resp # fst (main_loop demo_externals [] \<lparr>client = Some 0\<rparr> demo_world),
            snd (main_loop demo_externals [] \<lparr>client = Some 0\<rparr> demo_world))
         \<and> member_of resp ''id'' = Some (JNumber 6)
         \<and> member_of resp ''result'' = None
         \<and> member_of resp ''error'' = Some err
         \<and> member_of err ''code'' = Some (JNumber (- 32601))
         \<and> member_of err ''message'' = Some (JString ''Method not found''))"
proof -
  let ?req = "tools_call_request 6 [(''name'', JString ''unknown_tool'')]"
  have u: "Unmarshal demo_externals line_unknown_tool = Some ?req"
    by (simp add: demo_defs demo_lines)
  have i: "req_Id ?req = Some 6"
    by (simp add: tools_call_request_def)
  have p: "req_Method ?req \<notin> {''initialize'', ''tools/list'', ''tools/call''}
           \<or> (req_Method ?req = ''tools/call''
               \<and> (\<exists>params name. req_Params ?req = JObject params
                     \<and> map_of params ''name'' = Some (JString name)
                     \<and> name \<notin> {''connect_ssh'', ''execute_command'', ''disconnect_ssh''}))"
    by (simp add: tools_call_request_def)
  from unknown_method_or_tool_is_not_found
         [OF u i p, of "[]" "\<lparr>client = Some 0\<rparr>" demo_world] u
  show ?thesis by simp
qed

text \<open>
  C9: a \<^verbatim>\<open>tools/list\<close> request, whatever the executor and the world, is
  answered by a result whose \<open>tools\<close> are three entries named \<^verbatim>\<open>connect_ssh\<close>,
  \<^verbatim>\<open>execute_command\<close>, \<^verbatim>\<open>disconnect_ssh\<close>, in this order.
\<close>

theorem tools_list_names_three_tools:
  assumes "Unmarshal x line = Some req" and "req_Id req = Some i"
    and "req_Method req = ''tools/list''"
  shows "\<exists>resp result tools.
           main_loop x (line # rest) s w =
             (resp # fst (main_loop x rest s w), snd (main_loop x rest s w))
           \<and> member_of resp ''id'' = Some (JNumber (of_int i))
           \<and> member_of resp ''error'' = None
           \<and> member_of resp ''result'' = Some result
           \<and> member_of result ''tools'' = Some (JArray tools)
           \<and> map (\<lambda>t. member_of t ''name'') tools
               = [Some (JString ''connect_ssh''), Some (JString ''execute_command''),
                  Some (JString ''disconnect_ssh'')]"
proof -
  have d: "dispatch x req s w = (Some (ListTools tools_list_result), None, s, w)"
    using assms(3) by (simp add: dispatch_def)
  show ?thesis
    unfolding main_loop_answer [OF assms(1,2) d]
    using tools_list_names
    by (simp add: member_Marshal_id member_Marshal_result member_Marshal_error)
qed

text \<open>The theorem at a concrete input.\<close>

theorem tools_list_names_three_tools_witness:
  "Unmarshal demo_externals line_tools_list
     = Some \<lparr>req_Jsonrpc = ''2.0'', req_Id = Some 1, req_Method = ''tools/list'',
             req_Params = JNull\<rparr>
   \<and> (\<exists>resp result tools.
         main_loop demo_externals [line_tools_list] \<lparr>client = Some 0\<rparr> demo_world =
           (resp # fst (main_loop demo_externals [] \<lparr>client = Some 0\<rparr> demo_world),
            snd (main_loop demo_externals [] \<lparr>client = Some 0\<rparr> demo_world))
         \<and> member_of resp ''id'' = Some (JNumber 1)
         \<and> member_of resp ''error'' = None
         \<and> member_of resp ''result'' = Some result
         \<and> member_of result ''tools'' = Some (JArray tools)
         \<and> map (\<lambda>t. member_of t ''name'') tools
             = [Some (JString ''connect_ssh''), Some (JString ''execute_command''),
                Some (JString ''disconnect_ssh'')])"
proof -
  let ?req = "\<lparr>req_Jsonrpc = ''2.0'', req_Id = Some 1, req_Method = ''tools/list'',
               req_Params = JNull\<rparr>"
  have u: "Unmarshal demo_externals line_tools_list = Some ?req"
    by (simp add: demo_defs demo_lines)
  from tools_list_names_three_tools [OF u, of 1 "[]" "\<lparr>client = Some 0\<rparr>" demo_world] u
  show ?thesis by simp
qed

text \<open>
  C4: an \<^verbatim>\<open>execute_command\<close> call made while the executor holds no client is
  answered by a result with \<open>isError\<close> true and by no error object. The text is the
  \<^verbatim>\<open>not connected\<close> failure when \<open>arguments.command\<close> is a string, and
  \<^verbatim>\<open>command parameter required\<close> otherwise.
\<close>

theorem execute_without_session_is_tool_error:
  assumes "Unmarshal x line = Some req" and "req_Id req = Some i"
    and "req_Method req = ''tools/call''" and "req_Params req = JObject params"
    and "map_of params ''name'' = Some (JString ''execute_command'')"
    and "client s = None"
  shows "\<exists>resp result.
           main_loop x (line # rest) s w =
             (resp # fst (main_loop x rest s w), snd (main_loop x rest s w))
           \<and> member_of resp ''id'' = Some (JNumber (of_int i))
           \<and> member_of resp ''error'' = None
           \<and> member_of resp ''result'' = Some result
           \<and> member_of result ''isError'' = Some (JBool True)
           \<and> member_of result ''content'' =
               Some (JArray [JObject [(''type'', JString ''text''),
                 (''text'', JString
                    (case map_of (case map_of params ''arguments'' of
                                    Some (JObject a) \<Rightarrow> a | _ \<Rightarrow> []) ''command'' of
                       Some (JString cmd) \<Rightarrow>
                         ''Command failed: not connected'' @ [CHR 10] @ ''Output: ''
                           @ [CHR 10] @ ''Error: ''
                     | _ \<Rightarrow> ''command parameter required''))]])"
proof -
  let ?args = "case map_of params ''arguments'' of Some (JObject a) \<Rightarrow> a | _ \<Rightarrow> []"
  let ?text = "case map_of ?args ''command'' of
                 Some (JString cmd) \<Rightarrow>
                   ''Command failed: not connected'' @ [CHR 10] @ ''Output: ''
                     @ [CHR 10] @ ''Error: ''
               | _ \<Rightarrow> ''command parameter required''"
  have c: "call_tool x ''execute_command'' ?args s w = (Some (text_result ?text True), None, s, w)"
    by (simp add: call_tool_def ExecuteCommand_not_connected [OF assms(6)]
        split: option.splits json.splits)
  have d: "dispatch x req s w = (Some (text_result ?text True), None, s, w)"
    using assms(3,4,5) c by (simp add: dispatch_def)
  have t: "coerce_utf8 ?text = ?text"
    by (simp add: coerce_utf8_ascii split: option.splits json.splits)
  show ?thesis
    unfolding main_loop_answer [OF assms(1,2) d]
    using t
    by (simp add: member_Marshal_id member_Marshal_result member_Marshal_error
        member_text_result)
qed

text \<open>The theorem at a concrete input.\<close>

theorem execute_without_session_is_tool_error_witness:
  "Unmarshal demo_externals line_execute_false
     = Some (tools_call_request 4
               [(''name'', JString ''execute_command''),
                (''arguments'', JObject [(''command'', JString ''false'')])])
   \<and> client \<lparr>client = None\<rparr> = None
   \<and> (\<exists>resp result.
         main_loop demo_externals [line_execute_false] \<lparr>client = None\<rparr> demo_world =
           (resp # fst (main_loop demo_externals [] \<lparr>client = None\<rparr> demo_world),
            snd (main_loop demo_externals [] \<lparr>client = None\<rparr> demo_world))
         \<and> member_of resp ''id'' = Some (JNumber 4)
         \<and> member_of resp ''error'' = None
         \<and> member_of resp ''result'' = Some result
         \<and> member_of result ''isError'' = Some (JBool True)
         \<and> member_of result ''content'' =
             Some (JArray [JObject [(''type'', JString ''text''),
               (''text'', JString (''Command failed: not connected'' @ [CHR 10] @ ''Output: ''
                                     @ [CHR 10] @ ''Error: ''))]]))"
proof -
  let ?params = "[(''name'', JString ''execute_command''),
                  (''arguments'', JObject [(''command'', JString ''false'')])]"
  have u: "Unmarshal demo_externals line_execute_false = Some (tools_call_request 4 ?params)"
    by (simp add: demo_defs demo_lines)
  have r: "req_Id (tools_call_request 4 ?params) = Some 4"
    "req_Method (tools_call_request 4 ?params) = ''tools/call''"
    "req_Params (tools_call_request 4 ?params) = JObject ?params"
    by (simp_all add: tools_call_request_def)
  have n: "map_of ?params ''name'' = Some (JString ''execute_command'')"
    by simp
  have c: "client \<lparr>client = None\<rparr> = None"
    by simp
  from execute_without_session_is_tool_error [OF u r n c, of "[]" demo_world] u
  show ?thesis by simp
qed

subsection \<open>The session manager\<close>

text \<open>
  C3: as stated the claim fails. A command that writes to its standard output and to
  its standard error and then fails: \<^verbatim>\<open>ExecuteCommand\<close> returns the empty string as
  \<open>stdout\<close>, not what the command wrote there, and as \<open>stderr\<close> the two outputs
  together, not what the command wrote to its standard error.
\<close>

theorem failed_command_stdout_is_empty_counterexample:
  "Run demo_externals 1 0 ''ls src missing''
     = ([(Stdout, ''src: main.go''), (Stderr, ''ls: missing: No such file or directory'')],
        Some ''Process exited with status 2'')
   \<and> written Stdout (fst (Run demo_externals 1 0 ''ls src missing'')) = ''src: main.go''
   \<and> written Stderr (fst (Run demo_externals 1 0 ''ls src missing''))
       = ''ls: missing: No such file or directory''
   \<and> fst (ExecuteCommand demo_externals \<lparr>client = Some 0\<rparr> ''ls src missing'' demo_world)
       = ([], ''src: main.gols: missing: No such file or directory'',
          Some (External ''Process exited with status 2''))
   \<and> fst (fst (ExecuteCommand demo_externals \<lparr>client = Some 0\<rparr> ''ls src missing'' demo_world))
       \<noteq> written Stdout (fst (Run demo_externals 1 0 ''ls src missing''))
   \<and> fst (snd (fst (ExecuteCommand demo_externals \<lparr>client = Some 0\<rparr> ''ls src missing''
                       demo_world)))
       \<noteq> written Stderr (fst (Run demo_externals 1 0 ''ls src missing''))"
  by (simp add: ExecuteCommand_def CombinedOutput_def written_def demo_externals_def
      demo_world_def tick_def)

text \<open>
  C3: amended. When the channel of a connected executor cannot be opened, or the
  command runs and ends with an error, \<^verbatim>\<open>ExecuteCommand\<close> returns the failure, an
  empty \<open>stdout\<close> and, as \<open>stderr\<close>, the combined output it captured: all that
  the command wrote to either stream, in the order it arrived (nothing when the channel
  could not be opened). The tool result has \<open>IsError\<close> set, and its text is made of
  the failure, the empty \<open>stdout\<close> and that combined output.
\<close>

theorem failed_command_reports_combined_output:
  assumes "client s = Some c"
    and "map_of args ''command'' = Some (JString cmd)"
    and "NewSession x (clock w) c = Some m \<and> writes = []
         \<or> NewSession x (clock w) c = None \<and> Run x (Suc (clock w)) c cmd = (writes, Some m)"
  shows "\<exists>w'.
           ExecuteCommand x s cmd w = (([], concat (map snd writes), Some (External m)), w')
           \<and> call_tool x ''execute_command'' args s w =
               (Some (CallTool
                        \<lparr>Content =
                           [\<lparr>Type = ''text'',
                             Text = ''Command failed: '' @ m @ [CHR 10] @ ''Output: ''
                                      @ [CHR 10] @ ''Error: '' @ concat (map snd writes)\<rparr>],
                         IsError = True\<rparr>),
                None, s, w')"
proof -
  obtain w' where e:
    "ExecuteCommand x s cmd w = (([], concat (map snd writes), Some (External m)), w')"
    using assms(1,3)
    by (auto simp: ExecuteCommand_def CombinedOutput_def tick_def)
  have "call_tool x ''execute_command'' args s w =
               (Some (CallTool
                        \<lparr>Content =
                           [\<lparr>Type = ''text'',
                             Text = ''Command failed: '' @ m @ [CHR 10] @ ''Output: ''
                                      @ [CHR 10] @ ''Error: '' @ concat (map snd writes)\<rparr>],
                         IsError = True\<rparr>),
                None, s, w')"
    using assms(2) e by (simp add: call_tool_def text_result_def)
  with e show ?thesis by blast
qed

text \<open>The theorem at a concrete input.\<close>

theorem failed_command_reports_combined_output_witness:
  "client \<lparr>client = Some 0\<rparr> = Some 0
   \<and> NewSession demo_externals (clock demo_world) 0 = None
   \<and> Run demo_externals (Suc (clock demo_world)) 0 ''ls src missing''
       = ([(Stdout, ''src: main.go''), (Stderr, ''ls: missing: No such file or directory'')],
          Some ''Process exited with status 2'')
   \<and> (\<exists>w'.
         ExecuteCommand demo_externals \<lparr>client = Some 0\<rparr> ''ls src missing'' demo_world
           = (([], ''src: main.gols: missing: No such file or directory'',
               Some (External ''Process exited with status 2'')), w')
         \<and> call_tool demo_externals ''execute_command''
               [(''command'', JString ''ls src missing'')] \<lparr>client = Some 0\<rparr> demo_world =
             (Some (CallTool
                      \<lparr>Content =
                         [\<lparr>Type = ''text'',
                           Text = ''Command failed: Process exited with status 2'' @ [CHR 10]
                                    @ ''Output: '' @ [CHR 10]
                                    @ ''Error: src: main.gols: missing: No such file or directory''\<rparr>],
                       IsError = True\<rparr>),
              None, \<lparr>client = Some 0\<rparr>, w'))"
proof -
  let ?writes = "[(Stdout, ''src: main.go''), (Stderr, ''ls: missing: No such file or directory'')]"
  have c: "client \<lparr>client = Some 0\<rparr> = Some 0"
    by simp
  have a: "map_of [(''command'', JString ''ls src missing'')] ''command''
             = Some (JString ''ls src missing'')"
    by simp
  have n: "NewSession demo_externals (clock demo_world) 0 = None"
    by (simp add: demo_externals_def)
  have r: "Run demo_externals (Suc (clock demo_world)) 0 ''ls src missing''
             = (?writes, Some ''Process exited with status 2'')"
    by (simp add: demo_externals_def)
  have f: "NewSession demo_externals (clock demo_world) 0 = Some ''Process exited with status 2''
             \<and> ?writes = []
           \<or> NewSession demo_externals (clock demo_world) 0 = None
             \<and> Run demo_externals (Suc (clock demo_world)) 0 ''ls src missing''
                 = (?writes, Some ''Process exited with status 2'')"
    using n r by simp
  from failed_command_reports_combined_output [OF c a f] c n r
  show ?thesis by simp
qed

text \<open>
  C10: when \<^verbatim>\<open>Connect\<close> returns an error, the executor is unchanged and no
  connection has been opened or closed; a client stored before is still stored, and
  \<^verbatim>\<open>ExecuteCommand\<close> does not fail with \<^verbatim>\<open>not connected\<close>.
\<close>

theorem failed_connect_keeps_session:
  assumes "Connect x s w = (Some e, s', w')"
  shows "s' = s \<and> opened w' = opened w \<and> next_client w' = next_client w
         \<and> (\<forall>c. client s = Some c \<longrightarrow>
               client s' = Some c
               \<and> (\<forall>cmd. snd (snd (fst (ExecuteCommand x s' cmd w'))) \<noteq> Some NotConnected))"
  using Connect_failure_frame [OF assms] ExecuteCommand_connected by simp

text \<open>The theorem at a concrete input.\<close>

theorem failed_connect_keeps_session_witness:
  "Connect refusing_externals \<lparr>client = Some 0\<rparr> (demo_world\<lparr>opened := [0], next_client := 1\<rparr>)
     = (Some (External ''dial tcp: connection refused''), \<lparr>client = Some 0\<rparr>,
        demo_world\<lparr>clock := 1, opened := [0], next_client := 1\<rparr>)
   \<and> client \<lparr>client = Some 0\<rparr> = Some 0
   \<and> fst (ExecuteCommand refusing_externals \<lparr>client = Some 0\<rparr> ''echo hi''
            (demo_world\<lparr>clock := 1, opened := [0], next_client := 1\<rparr>))
       = (''hi'', [], None)
   \<and> snd (snd (fst (ExecuteCommand refusing_externals \<lparr>client = Some 0\<rparr> ''echo hi''
            (demo_world\<lparr>clock := 1, opened := [0], next_client := 1\<rparr>))))
       \<noteq> Some NotConnected"
proof -
  have c: "Connect refusing_externals \<lparr>client = Some 0\<rparr>
             (demo_world\<lparr>opened := [0], next_client := 1\<rparr>)
     = (Some (External ''dial tcp: connection refused''), \<lparr>client = Some 0\<rparr>,
        demo_world\<lparr>clock := 1, opened := [0], next_client := 1\<rparr>)"
    by (simp add: Connect_def refusing_externals_def demo_externals_def demo_world_def tick_def)
  have e: "fst (ExecuteCommand refusing_externals \<lparr>client = Some 0\<rparr> ''echo hi''
            (demo_world\<lparr>clock := 1, opened := [0], next_client := 1\<rparr>))
       = (''hi'', [], None)"
    by (simp add: ExecuteCommand_def CombinedOutput_def refusing_externals_def demo_externals_def demo_world_def
        tick_def)
  from failed_connect_keeps_session [OF c] c e
  show ?thesis by simp
qed




text \<open>
  C2: as stated the claim fails. After two \<^verbatim>\<open>connect_ssh\<close> calls that both
  succeed, the executor stores the second connection and both connections are open;
  \<^verbatim>\<open>disconnect_ssh\<close> then closes the second one only.
\<close>

theorem second_connect_leaks_first_counterexample:
  "client (fst (snd (main demo_externals demo_world [line_connect, line_connect]))) = Some 1
   \<and> opened (snd (snd (main demo_externals demo_world [line_connect, line_connect]))) = [0, 1]
   \<and> opened (snd (snd (main demo_externals demo_world
                          [line_connect, line_connect, line_disconnect]))) = [0]"
  by (simp add: main_def MaxScanTokenSize_def dropCR_def dispatch_def call_tool_def Connect_def Disconnect_def tick_def
      demo_defs demo_lines)

text \<open>
  C2: amended. When \<^verbatim>\<open>Connect\<close> succeeds, the executor stores the connection
  just opened, in place of whatever it stored before; \<^verbatim>\<open>Disconnect\<close> then closes
  that connection and clears the executor, after which \<^verbatim>\<open>ExecuteCommand\<close> fails
  with \<^verbatim>\<open>not connected\<close>.
\<close>

theorem successful_connect_stores_new_session:
  assumes "Connect x s w = (None, s', w')"
  shows "client s' = Some (next_client w) \<and> next_client w \<in> set (opened w')
         \<and> client (fst (Disconnect s' w')) = None
         \<and> next_client w \<notin> set (opened (snd (Disconnect s' w')))
         \<and> fst (ExecuteCommand x (fst (Disconnect s' w')) cmd (snd (Disconnect s' w')))
             = ([], [], Some NotConnected)"
  using assms
  by (auto simp: Connect_def Let_def tick_def Disconnect_def ExecuteCommand_def
      split: if_splits sum.splits option.splits)

text \<open>The theorem at a concrete input.\<close>

theorem successful_connect_stores_new_session_witness:
  "Connect demo_externals \<lparr>client = Some 0\<rparr> (demo_world\<lparr>opened := [0], next_client := 1\<rparr>)
     = (None, \<lparr>client = Some 1\<rparr>, demo_world\<lparr>clock := 1, opened := [0, 1], next_client := 2\<rparr>)
   \<and> Disconnect \<lparr>client = Some 1\<rparr> (demo_world\<lparr>clock := 1, opened := [0, 1], next_client := 2\<rparr>)
       = (\<lparr>client = None\<rparr>, demo_world\<lparr>clock := 1, opened := [0], next_client := 2\<rparr>)
   \<and> fst (ExecuteCommand demo_externals \<lparr>client = None\<rparr> ''echo hi''
             (demo_world\<lparr>clock := 1, opened := [0], next_client := 2\<rparr>))
       = ([], [], Some NotConnected)"
proof -
  have c: "Connect demo_externals \<lparr>client = Some 0\<rparr> (demo_world\<lparr>opened := [0], next_client := 1\<rparr>)
     = (None, \<lparr>client = Some 1\<rparr>, demo_world\<lparr>clock := 1, opened := [0, 1], next_client := 2\<rparr>)"
    by (simp add: Connect_def demo_externals_def demo_world_def tick_def)
  have d: "Disconnect \<lparr>client = Some 1\<rparr> (demo_world\<lparr>clock := 1, opened := [0, 1], next_client := 2\<rparr>)
       = (\<lparr>client = None\<rparr>, demo_world\<lparr>clock := 1, opened := [0], next_client := 2\<rparr>)"
    by (simp add: Disconnect_def demo_world_def)
  from successful_connect_stores_new_session [OF c, of "''echo hi''"] c d
  show ?thesis by simp
qed

end
